theory Spec2Isabelle
  imports Main "HOL-Library.Sublist"
begin

section \<open>Values, errors and objects\<close>

text \<open>
  The resolver of \<^verbatim>\<open>datacontract/lint/resolve.py\<close> works on decoded YAML and on
  pydantic objects. A decoded YAML document is a \<open>val\<close>; a Python \<open>dict\<close> keeps its
  insertion order, so it is an association list.
\<close>

datatype val =
    VNone
  | VBool bool
  | VInt int
  | VStr string
  | VList "val list"
  | VDict "(val \<times> val) list"

text \<open>
  Every \<^verbatim>\<open>raise\<close> of the module builds a \<^verbatim>\<open>DataContractException\<close> with the five
  keyword arguments \<^verbatim>\<open>type, result, name, reason, engine\<close>, in this order below. The
  other constructors are the exceptions Python itself raises in the module
  (\<^verbatim>\<open>None.startswith\<close>, a missing dictionary key, a list index out of range) and
  whatever a collaborator outside the module raises.
\<close>

datatype error =
    DataContractException string string string string string
  | AttributeError string
  | KeyError string
  | IndexError
  | Raised string

text \<open>
  Modelled from the spec: the classes \<^verbatim>\<open>Definition\<close>, \<^verbatim>\<open>Field\<close>, \<^verbatim>\<open>Model\<close>,
  \<^verbatim>\<open>Quality\<close> and \<^verbatim>\<open>DataContractSpecification\<close> of
  \<^verbatim>\<open>datacontract/model/data_contract_specification.py\<close> are imported by the module
  and not part of it. The module reads them reflectively (\<^verbatim>\<open>getattr\<close>,
  \<^verbatim>\<open>setattr\<close>, \<^verbatim>\<open>model_fields\<close>, \<^verbatim>\<open>model_fields_set\<close>), so an object is its
  attribute dictionary together with the set of attribute names that were explicitly
  set. The attribute names a \<^verbatim>\<open>Field\<close> declares are a parameter
  (\<open>Field_model_fields\<close> below).

  \<^verbatim>\<open>Definition\<close> objects are shared: a \<^verbatim>\<open>Field\<close> refers to the object its
  \<^verbatim>\<open>ref_obj\<close> was assigned, it holds no copy. They live in a store addressed by
  \<open>addr\<close>; \<open>next_addr\<close> is the first address no object has been allocated at.
\<close>

type_synonym addr = nat

record Definition =
  d_dict :: "string \<Rightarrow> val"
  d_fields_set :: "string set"

record heap =
  objs :: "addr \<Rightarrow> Definition"
  next_addr :: addr

definition alloc :: "heap \<Rightarrow> Definition \<Rightarrow> addr \<times> heap" where
  "alloc h d = (next_addr h, h\<lparr>objs := (objs h)(next_addr h := d), next_addr := Suc (next_addr h)\<rparr>)"

text \<open>An attribute of a \<^verbatim>\<open>Field\<close> holds a plain value or a reference to a
  \<^verbatim>\<open>Definition\<close> object. A field belongs to one model and a model to one
  specification, so they are kept by value: changing a field in place is returning
  the specification with that field changed.\<close>

datatype attr = Val val | Obj addr

record Field =
  f_dict :: "string \<Rightarrow> attr"
  f_fields_set :: "string set"

record Model =
  m_fields :: "(string \<times> Field) list"

record Quality =
  q_type :: val
  q_specification :: val

record DataContractSpecification =
  models :: "(string \<times> Model) list"
  definitions :: "string \<rightharpoonup> addr"
  quality :: "Quality option"

text \<open>A specification together with the store its \<^verbatim>\<open>ref_obj\<close> references and
  its \<open>definitions\<close> mapping point into.\<close>

type_synonym state = "DataContractSpecification \<times> heap"

text \<open>Python's truth value of an object, as \<^verbatim>\<open>not x\<close> tests it. A pydantic object
  defines neither \<^verbatim>\<open>__bool__\<close> nor \<^verbatim>\<open>__len__\<close>, so it is true.\<close>

fun truthy_val :: "val \<Rightarrow> bool" where
  "truthy_val VNone = False"
| "truthy_val (VBool b) = b"
| "truthy_val (VInt i) = (i \<noteq> 0)"
| "truthy_val (VStr s) = (s \<noteq> [])"
| "truthy_val (VList xs) = (xs \<noteq> [])"
| "truthy_val (VDict kvs) = (kvs \<noteq> [])"

fun truthy :: "attr \<Rightarrow> bool" where
  "truthy (Val v) = truthy_val v"
| "truthy (Obj a) = True"

text \<open>
  pydantic's \<^verbatim>\<open>BaseModel.__setattr__\<close>: the value is stored and the name is recorded
  in \<^verbatim>\<open>model_fields_set\<close>.
\<close>

definition setattr :: "Field \<Rightarrow> string \<Rightarrow> attr \<Rightarrow> Field" where
  "setattr field field_name v =
     field\<lparr>f_dict := (f_dict field)(field_name := v),
           f_fields_set := insert field_name (f_fields_set field)\<rparr>"

section \<open>The collaborators of the module\<close>

text \<open>
  What the module imports and calls but does not define: the fetch and file primitives,
  the YAML parser (\<open>Inl\<close> carries the text of the exception it raised), the schema
  fetcher and validator, the pydantic constructors, the file system, and
  \<^verbatim>\<open>str()\<close> of a value that is not a string (inside an f-string).
\<close>

datatype validation = Valid | JsonSchemaValueException string | OtherException string

record env =
  fetch_resource :: "string \<Rightarrow> error + string"
  read_file :: "string \<Rightarrow> error + string"
  safe_load :: "string \<Rightarrow> string + val"
  fetch_schema :: "string option \<Rightarrow> error + val"
  fastjsonschema_validate :: "val \<Rightarrow> val \<Rightarrow> validation"
  new_Definition :: "val \<Rightarrow> error + Definition"
  new_DataContractSpecification :: "val \<Rightarrow> error + state"
  Field_model_fields :: "string list"
  os_path_exists :: "val \<Rightarrow> error + bool"
  open_read :: "val \<Rightarrow> error + string"
  repr :: "val \<Rightarrow> string"

text \<open>\<^verbatim>\<open>f"{x}"\<close>: a string is inserted as it is.\<close>

fun format :: "env \<Rightarrow> val \<Rightarrow> string" where
  "format env (VStr s) = s"
| "format env v = repr env v"

section \<open>Strings\<close>

text \<open>
  \<^verbatim>\<open>s.split(sep)\<close> for a non-empty separator: the pieces between the occurrences of
  \<open>sep\<close>, found from the left without overlap. \<open>cur\<close> is the piece being read.
  (Python raises \<^verbatim>\<open>ValueError\<close> on an empty separator; the module only splits at
  a constant.)
\<close>

function split_from :: "string \<Rightarrow> string \<Rightarrow> string \<Rightarrow> string list" where
  "split_from sep cur [] = [cur]"
| "split_from sep cur (c # cs) =
     (if sep \<noteq> [] \<and> prefix sep (c # cs)
      then cur # split_from sep [] (drop (length sep) (c # cs))
      else split_from sep (cur @ [c]) cs)"
  by pat_completeness auto
termination
  by (relation "measure (\<lambda>(sep, cur, s). length s)") auto

definition str_split :: "string \<Rightarrow> string \<Rightarrow> string list" where
  "str_split s sep = split_from sep [] s"

section \<open>Parsing\<close>

text \<open>\<^verbatim>\<open>to_yaml\<close> turns any exception of the parser into the module's own exception.
  The warning it logs first changes no result and is left out, here and in
  \<open>validate\<close>.\<close>

definition to_yaml :: "env \<Rightarrow> string \<Rightarrow> error + val" where
  "to_yaml env data_contract_str =
     (case safe_load env data_contract_str of
        Inr yaml_dict \<Rightarrow> Inr yaml_dict
      | Inl e \<Rightarrow>
          Inl (DataContractException ''lint'' ''failed''
                 ''Check that data contract YAML is valid''
                 (''Cannot parse YAML. Error: '' @ e) ''datacontract''))"

section \<open>Resolving a definition reference\<close>

text \<open>
  \<^verbatim>\<open>resolve_definition_ref(ref, definitions)\<close>. \<open>ref\<close> is whatever the attribute
  \<^verbatim>\<open>field.ref\<close> holds; only a string has \<^verbatim>\<open>startswith\<close>. The remote branch builds
  a new \<^verbatim>\<open>Definition\<close> object, the local branch returns the object the mapping holds.
\<close>

fun resolve_definition_ref ::
  "env \<Rightarrow> attr \<Rightarrow> (string \<rightharpoonup> addr) \<Rightarrow> heap \<Rightarrow> error + (addr \<times> heap)" where
  "resolve_definition_ref env (Val (VStr ref)) defs h =
     (if prefix ''http://'' ref \<or> prefix ''https://'' ref then
        (case fetch_resource env ref of
           Inl e \<Rightarrow> Inl e
         | Inr definition_str \<Rightarrow>
             (case to_yaml env definition_str of
                Inl e \<Rightarrow> Inl e
              | Inr definition_dict \<Rightarrow>
                  (case new_Definition env definition_dict of
                     Inl e \<Rightarrow> Inl e
                   | Inr d \<Rightarrow> Inr (alloc h d))))
      else if prefix ''#/definitions/'' ref then
        (case str_split ref ''#/definitions/'' of
           p0 # definition_name # ps \<Rightarrow>
             (case defs definition_name of
                None \<Rightarrow> Inl (KeyError definition_name)
              | Some a \<Rightarrow> Inr (a, h))
         | _ \<Rightarrow> Inl IndexError)
      else
        Inl (DataContractException ''lint'' ''failed''
               ''Check that data contract YAML is valid''
               (''Cannot resolve reference '' @ ref) ''datacontract''))"
| "resolve_definition_ref env ref defs h = Inl (AttributeError ''startswith'')"

section \<open>Inlining definitions\<close>

text \<open>
  The innermost loop of \<^verbatim>\<open>inline_definitions_into_data_contract\<close>, over
  \<^verbatim>\<open>field.model_fields.keys()\<close>: an attribute is copied from the definition when
  the definition has set it and the field has not. The test reads the field as the
  loop has changed it so far.
\<close>

fun merge_attributes :: "Definition \<Rightarrow> string list \<Rightarrow> Field \<Rightarrow> Field" where
  "merge_attributes d [] field = field"
| "merge_attributes d (field_name # names) field =
     merge_attributes d names
       (if field_name \<in> d_fields_set d \<and> field_name \<notin> f_fields_set field
        then setattr field field_name (Val (d_dict d field_name))
        else field)"

text \<open>
  The body of the loop over the fields of a model, for one field: the guard, the
  resolution, the assignment \<^verbatim>\<open>field.ref_obj = definition\<close> and the merge. An
  exception can only come from the resolution, before the field is changed.
\<close>

definition inline_field ::
  "env \<Rightarrow> (string \<rightharpoonup> addr) \<Rightarrow> Field \<Rightarrow> heap \<Rightarrow> error + (Field \<times> heap)" where
  "inline_field env defs field h =
     (if \<not> truthy (f_dict field ''ref'') \<and> \<not> truthy (f_dict field ''ref_obj'')
      then Inr (field, h)
      else
        (case resolve_definition_ref env (f_dict field ''ref'') defs h of
           Inl e \<Rightarrow> Inl e
         | Inr (a, h') \<Rightarrow>
             Inr (merge_attributes (objs h' a) (Field_model_fields env)
                    (setattr field ''ref_obj'' (Obj a)), h')))"

text \<open>
  The two outer loops. The objects are changed in place, so when a field raises, the
  fields before it stay inlined: the result is the exception (if any) together with
  the fields and the store as the loop left them.
\<close>

fun inline_fields ::
  "env \<Rightarrow> (string \<rightharpoonup> addr) \<Rightarrow> (string \<times> Field) list \<Rightarrow> heap
     \<Rightarrow> error option \<times> (string \<times> Field) list \<times> heap" where
  "inline_fields env defs [] h = (None, [], h)"
| "inline_fields env defs ((k, field) # rest) h =
     (case inline_field env defs field h of
        Inl e \<Rightarrow> (Some e, (k, field) # rest, h)
      | Inr (field', h') \<Rightarrow>
          (case inline_fields env defs rest h' of
             (r, rest', h'') \<Rightarrow> (r, (k, field') # rest', h'')))"

fun inline_models ::
  "env \<Rightarrow> (string \<rightharpoonup> addr) \<Rightarrow> (string \<times> Model) list \<Rightarrow> heap
     \<Rightarrow> error option \<times> (string \<times> Model) list \<times> heap" where
  "inline_models env defs [] h = (None, [], h)"
| "inline_models env defs ((k, model) # rest) h =
     (case inline_fields env defs (m_fields model) h of
        (Some e, fs, h') \<Rightarrow> (Some e, (k, model\<lparr>m_fields := fs\<rparr>) # rest, h')
      | (None, fs, h') \<Rightarrow>
          (case inline_models env defs rest h' of
             (r, rest', h'') \<Rightarrow> (r, (k, model\<lparr>m_fields := fs\<rparr>) # rest', h'')))"

definition inline_definitions_into_data_contract ::
  "env \<Rightarrow> state \<Rightarrow> error option \<times> state" where
  "inline_definitions_into_data_contract env st =
     (case st of (spec, h) \<Rightarrow>
        (case inline_models env (definitions spec) (models spec) h of
           (r, ms, h') \<Rightarrow> (r, (spec\<lparr>models := ms\<rparr>, h'))))"

section \<open>Resolving quality references\<close>

definition get_quality_ref_file :: "env \<Rightarrow> val \<Rightarrow> error + val" where
  "get_quality_ref_file env quality_spec =
     (case quality_spec of
        VDict kvs \<Rightarrow>
          (case map_of kvs (VStr ''$ref'') of
             None \<Rightarrow> Inr quality_spec
           | Some ref \<Rightarrow>
               (case os_path_exists env ref of
                  Inl e \<Rightarrow> Inl e
                | Inr exists \<Rightarrow>
                    if \<not> exists then
                      Inl (DataContractException ''export'' ''failed''
                             ''Check that data contract quality is valid''
                             (''Cannot resolve reference '' @ format env ref) ''datacontract'')
                    else
                      (case open_read env ref of
                         Inl e \<Rightarrow> Inl e
                       | Inr content \<Rightarrow> Inr (VStr content))))
      | _ \<Rightarrow> Inr quality_spec)"

text \<open>The loop over \<^verbatim>\<open>specification.items()\<close> of the great-expectations branch: each
  entry is replaced in place, in order, until one raises.\<close>

fun resolve_items :: "env \<Rightarrow> (val \<times> val) list \<Rightarrow> error option \<times> (val \<times> val) list" where
  "resolve_items env [] = (None, [])"
| "resolve_items env ((model, model_quality) # rest) =
     (case get_quality_ref_file env model_quality of
        Inl e \<Rightarrow> (Some e, (model, model_quality) # rest)
      | Inr v \<Rightarrow>
          (case resolve_items env rest of (r, rest') \<Rightarrow> (r, (model, v) # rest')))"

definition resolve_quality_ref :: "env \<Rightarrow> Quality \<Rightarrow> error option \<times> Quality" where
  "resolve_quality_ref env q =
     (case q_specification q of
        VDict items \<Rightarrow>
          if q_type q = VStr ''great-expectations'' then
            (case resolve_items env items of
               (r, items') \<Rightarrow> (r, q\<lparr>q_specification := VDict items'\<rparr>))
          else if map_of items (VStr ''$ref'') \<noteq> None then
            (case get_quality_ref_file env (VDict items) of
               Inl e \<Rightarrow> (Some e, q)
             | Inr v \<Rightarrow> (None, q\<lparr>q_specification := v\<rparr>))
          else (None, q)
      | _ \<Rightarrow> (None, q))"

section \<open>The entry points\<close>

definition validate :: "env \<Rightarrow> val \<Rightarrow> string option \<Rightarrow> error + unit" where
  "validate env data_contract_yaml schema_location =
     (case fetch_schema env schema_location of
        Inl e \<Rightarrow> Inl e
      | Inr schema \<Rightarrow>
          (case fastjsonschema_validate env schema data_contract_yaml of
             Valid \<Rightarrow> Inr ()
           | JsonSchemaValueException message \<Rightarrow>
               Inl (DataContractException ''lint'' ''failed''
                      ''Check that data contract YAML is valid'' message ''datacontract'')
           | OtherException message \<Rightarrow>
               Inl (DataContractException ''lint'' ''failed''
                      ''Check that data contract YAML is valid'' message ''datacontract'')))"

text \<open>
  A parameter with a default value is an \<open>option\<close>: \<open>None\<close> when the caller leaves it
  out, and \<open>given d\<close> reads it with the default \<open>d\<close> of the signature.
  (\<^verbatim>\<open>schema_location\<close> defaults to Python's \<^verbatim>\<open>None\<close> and is passed on as it is.)
\<close>

definition given :: "'a \<Rightarrow> 'a option \<Rightarrow> 'a" where
  "given d arg = (case arg of None \<Rightarrow> d | Some x \<Rightarrow> x)"

definition resolve_data_contract_from_str ::
  "env \<Rightarrow> string \<Rightarrow> string option \<Rightarrow> bool option \<Rightarrow> bool option \<Rightarrow> error + state" where
  "resolve_data_contract_from_str env data_contract_str schema_location
       inline_definitions include_quality =
     (case to_yaml env data_contract_str of
        Inl e \<Rightarrow> Inl e
      | Inr data_contract_yaml_dict \<Rightarrow>
     (case validate env data_contract_yaml_dict schema_location of
        Inl e \<Rightarrow> Inl e
      | Inr u \<Rightarrow>
     (case new_DataContractSpecification env data_contract_yaml_dict of
        Inl e \<Rightarrow> Inl e
      | Inr st \<Rightarrow>
     (case (if given False inline_definitions
            then inline_definitions_into_data_contract env st else (None, st)) of
        (Some e, st') \<Rightarrow> Inl e
      | (None, (spec, h)) \<Rightarrow>
          (case quality spec of
             None \<Rightarrow> Inr (spec, h)
           | Some q \<Rightarrow>
               if given False include_quality then
                 (case resolve_quality_ref env q of
                    (Some e, q') \<Rightarrow> Inl e
                  | (None, q') \<Rightarrow> Inr (spec\<lparr>quality := Some q'\<rparr>, h))
               else Inr (spec, h))))))"

definition resolve_data_contract_from_location ::
  "env \<Rightarrow> string \<Rightarrow> string option \<Rightarrow> bool option \<Rightarrow> bool option \<Rightarrow> error + state" where
  "resolve_data_contract_from_location env location schema_location
       inline_definitions include_quality =
     (case (if prefix ''http://'' location \<or> prefix ''https://'' location
            then fetch_resource env location else read_file env location) of
        Inl e \<Rightarrow> Inl e
      | Inr data_contract_str \<Rightarrow>
          resolve_data_contract_from_str env data_contract_str schema_location
            (Some (given False inline_definitions)) (Some (given True include_quality)))"

definition resolve_data_contract ::
  "env \<Rightarrow> string option \<Rightarrow> string option \<Rightarrow> state option \<Rightarrow> string option
     \<Rightarrow> bool option \<Rightarrow> error + state" where
  "resolve_data_contract env data_contract_location data_contract_str data_contract
       schema_location inline_definitions =
     (case data_contract_location of
        Some location \<Rightarrow>
          resolve_data_contract_from_location env location schema_location
            (Some (given False inline_definitions)) None
      | None \<Rightarrow>
          (case data_contract_str of
             Some s \<Rightarrow>
               resolve_data_contract_from_str env s schema_location
                 (Some (given False inline_definitions)) None
           | None \<Rightarrow>
               (case data_contract of
                  Some dc \<Rightarrow> Inr dc
                | None \<Rightarrow>
                    Inl (DataContractException ''lint'' ''failed''
                           ''Check that data contract YAML is valid''
                           ''Data contract needs to be provided'' ''datacontract''))))"

section \<open>The store across a call\<close>

text \<open>
  \<open>preserved h h'\<close>: every \<^verbatim>\<open>Definition\<close> object of the store \<open>h\<close> is still there in
  \<open>h'\<close>, with the attributes and the set of explicitly set names it had; \<open>h'\<close> may hold
  new objects.
\<close>

definition preserved :: "heap \<Rightarrow> heap \<Rightarrow> bool" where
  "preserved h h' \<longleftrightarrow>
     next_addr h \<le> next_addr h' \<and> (\<forall>b. b < next_addr h \<longrightarrow> objs h' b = objs h b)"

section \<open>What inlining leaves on a field\<close>




section \<open>A small contract\<close>

text \<open>
  Concrete objects on which the properties below are run: a definition \<^verbatim>\<open>d1\<close> that
  sets \<^verbatim>\<open>type\<close> and \<^verbatim>\<open>description\<close>, a field that refers to it and sets its own
  \<^verbatim>\<open>type\<close>, a quality block that points at the file \<^verbatim>\<open>checks.yaml\<close>, and
  collaborators that serve one remote definition, one contract file and one quality
  file.
\<close>

definition blank_Field :: Field where
  "blank_Field = \<lparr>f_dict = (\<lambda>n. Val VNone), f_fields_set = {}\<rparr>"

definition demo_Definition :: Definition where
  "demo_Definition =
     \<lparr>d_dict = (\<lambda>n. if n = ''type'' then VStr ''string''
                    else if n = ''description'' then VStr ''an id'' else VNone),
      d_fields_set = {''type'', ''description''}\<rparr>"

definition empty_heap :: heap where
  "empty_heap = \<lparr>objs = (\<lambda>a. \<lparr>d_dict = (\<lambda>n. VNone), d_fields_set = {}\<rparr>), next_addr = 0\<rparr>"

definition demo_heap :: heap where
  "demo_heap = snd (alloc empty_heap demo_Definition)"

definition demo_field :: Field where
  "demo_field =
     setattr (setattr blank_Field ''ref'' (Val (VStr ''#/definitions/d1'')))
       ''type'' (Val (VStr ''long''))"

definition demo_quality :: Quality where
  "demo_quality =
     \<lparr>q_type = VStr ''SodaCL'',
      q_specification = VDict [(VStr ''$ref'', VStr ''checks.yaml'')]\<rparr>"

definition demo_spec :: DataContractSpecification where
  "demo_spec =
     \<lparr>models = [(''m1'', \<lparr>m_fields = [(''f1'', demo_field)]\<rparr>)],
      definitions = [''d1'' \<mapsto> 0],
      quality = Some demo_quality\<rparr>"

definition demo_env :: env where
  "demo_env =
     \<lparr>fetch_resource =
        (\<lambda>url. if url = ''https://example.com/d1.yaml'' then Inr ''type: string''
               else Inl (Raised ''404'')),
      read_file =
        (\<lambda>path. if path = ''datacontract.yaml'' then Inr ''contract''
                else Inl (Raised ''FileNotFoundError'')),
      safe_load =
        (\<lambda>s. if s = ''contract'' then Inr (VDict [(VStr ''models'', VDict [])])
             else if s = ''type: string'' then Inr (VDict [(VStr ''type'', VStr ''string'')])
             else Inl ''mapping values are not allowed here''),
      fetch_schema = (\<lambda>schema_location. Inr (VDict [])),
      fastjsonschema_validate = (\<lambda>schema y. Valid),
      new_Definition = (\<lambda>y. Inr demo_Definition),
      new_DataContractSpecification = (\<lambda>y. Inr (demo_spec, demo_heap)),
      Field_model_fields = [''ref'', ''ref_obj'', ''type'', ''description''],
      os_path_exists = (\<lambda>p. Inr (p = VStr ''checks.yaml'')),
      open_read =
        (\<lambda>p. if p = VStr ''checks.yaml'' then Inr ''X''
             else Inl (Raised ''FileNotFoundError'')),
      repr = (\<lambda>v. ''?'')\<rparr>"





text \<open>A field built by hand with \<^verbatim>\<open>ref_obj\<close> populated and no \<^verbatim>\<open>ref\<close>, and a field
  that refers to a remote definition.\<close>

definition stale_spec :: DataContractSpecification where
  "stale_spec =
     \<lparr>models = [(''m1'', \<lparr>m_fields = [(''f1'', setattr blank_Field ''ref_obj'' (Obj 0))]\<rparr>)],
      definitions = [''d1'' \<mapsto> 0],
      quality = None\<rparr>"

definition remote_spec :: DataContractSpecification where
  "remote_spec =
     \<lparr>models = [(''m1'', \<lparr>m_fields =
         [(''f1'', setattr blank_Field ''ref'' (Val (VStr ''https://example.com/d1.yaml'')))]\<rparr>)],
      definitions = Map.empty,
      quality = None\<rparr>"

section \<open>Lemmas\<close>

subsection \<open>Splitting a local anchor\<close>

lemma split_from_no_sep:
  "\<not> sublist sep s \<Longrightarrow> split_from sep cur s = [cur @ s]"
proof (induction s arbitrary: cur)
  case Nil
  then show ?case by simp
next
  case (Cons c cs)
  then have "\<not> prefix sep (c # cs)" and "\<not> sublist sep cs"
    by (auto simp: sublist_Cons_right)
  with Cons.IH [of "cur @ [c]"] show ?case by simp
qed

lemma split_from_at_sep:
  "sep \<noteq> [] \<Longrightarrow> split_from sep cur (sep @ s) = cur # split_from sep [] s"
  by (cases sep) simp_all

lemma str_split_local_anchor:
  "\<not> sublist ''#/definitions/'' name \<Longrightarrow>
   str_split (''#/definitions/'' @ name) ''#/definitions/'' = [[], name]"
  unfolding str_split_def
  using split_from_at_sep [of "''#/definitions/''" "[]" name]
    split_from_no_sep [of "''#/definitions/''" name "[]"]
  by simp

text \<open>A reference that starts with the separator splits into at least two pieces, so
  the index \<^verbatim>\<open>[1]\<close> of the local branch is always in range.\<close>

lemma split_from_not_Nil: "split_from sep cur s \<noteq> []"
  by (induction sep cur s rule: split_from.induct) simp_all

lemma str_split_two_pieces:
  assumes "sep \<noteq> []" and "prefix sep s"
  shows "\<exists>p n ps. str_split s sep = p # n # ps"
proof -
  from assms(2) obtain t where s: "s = sep @ t" by (auto simp: prefix_def)
  from assms(1) have "str_split s sep = [] # split_from sep [] t"
    unfolding str_split_def s by (rule split_from_at_sep)
  moreover obtain n ps where "split_from sep [] t = n # ps"
    using split_from_not_Nil [of sep "[]" t] by (cases "split_from sep [] t") auto
  ultimately show ?thesis by simp
qed

subsection \<open>The merge loop\<close>

lemma merge_attributes_dict:
  "f_dict (merge_attributes d ns f) n =
     (if n \<in> set ns \<and> n \<in> d_fields_set d \<and> n \<notin> f_fields_set f
      then Val (d_dict d n) else f_dict f n)"
  by (induction ns arbitrary: f) (auto simp: setattr_def)

lemma resolve_definition_ref_truthy:
  "resolve_definition_ref env ref defs h = Inr p \<Longrightarrow> truthy ref"
  by (cases "(env, ref, defs, h)" rule: resolve_definition_ref.cases)
     (auto split: if_splits)

lemma merge_attributes_fields_set:
  "f_fields_set (merge_attributes d ns f) = f_fields_set f \<union> (set ns \<inter> d_fields_set d)"
  by (induction ns arbitrary: f) (auto simp: setattr_def)

lemma merge_attributes_done:
  "\<forall>n \<in> set ns. n \<in> d_fields_set d \<longrightarrow> n \<in> f_fields_set f \<Longrightarrow> merge_attributes d ns f = f"
  by (induction ns arbitrary: f) auto

lemma setattr_again:
  "f_dict f n = v \<Longrightarrow> n \<in> f_fields_set f \<Longrightarrow> setattr f n v = f"
  by (auto simp: setattr_def insert_absorb)

text \<open>
  A field that was inlined against an object of the mapping is not skipped when the
  loop meets it again: it is resolved and merged again. The second pass changes
  nothing all the same, because \<^verbatim>\<open>setattr\<close> has recorded every copied name as set
  (as long as the merge has not overwritten \<^verbatim>\<open>ref\<close> itself).
\<close>

lemma inline_field_again:
  assumes "inline_field env defs field h = Inr (field', h)"
    and "f_dict field' ''ref'' = f_dict field ''ref''"
  shows "inline_field env defs field' h = Inr (field', h)"
proof (cases "\<not> truthy (f_dict field ''ref'') \<and> \<not> truthy (f_dict field ''ref_obj'')")
  case True
  with assms(1) have "field' = field" by (simp add: inline_field_def)
  with assms(1) show ?thesis by simp
next
  case False
  with assms(1) obtain a where
    res: "resolve_definition_ref env (f_dict field ''ref'') defs h = Inr (a, h)"
    and f': "field' = merge_attributes (objs h a) (Field_model_fields env)
                        (setattr field ''ref_obj'' (Obj a))"
    by (auto simp: inline_field_def split: sum.splits)
  have obj: "f_dict field' ''ref_obj'' = Obj a"
    by (simp add: f' merge_attributes_dict setattr_def)
  have set: "f_fields_set field' =
      insert ''ref_obj'' (f_fields_set field)
        \<union> (set (Field_model_fields env) \<inter> d_fields_set (objs h a))"
    by (simp add: f' merge_attributes_fields_set setattr_def)
  have "setattr field' ''ref_obj'' (Obj a) = field'"
    using obj set by (intro setattr_again) auto
  moreover have "merge_attributes (objs h a) (Field_model_fields env) field' = field'"
    using set by (intro merge_attributes_done) auto
  moreover from res have "truthy (f_dict field ''ref'')"
    by (rule resolve_definition_ref_truthy)
  ultimately show ?thesis
    using res assms(2) by (simp add: inline_field_def)
qed

subsection \<open>Existing objects are kept\<close>

lemma preserved_refl: "preserved h h"
  by (simp add: preserved_def)

lemma preserved_trans: "preserved h h' \<Longrightarrow> preserved h' h'' \<Longrightarrow> preserved h h''"
  by (auto simp: preserved_def)

lemma preserved_alloc: "alloc h d = (a, h') \<Longrightarrow> preserved h h'"
  by (auto simp: preserved_def alloc_def)

lemma resolve_definition_ref_preserved:
  "resolve_definition_ref env ref defs h = Inr (a, h') \<Longrightarrow> preserved h h'"
proof (cases "(env, ref, defs, h)" rule: resolve_definition_ref.cases)
  case (1 env' r defs' h0)
  assume "resolve_definition_ref env ref defs h = Inr (a, h')"
  with 1 have "h' = h \<or> (\<exists>d. alloc h d = (a, h'))"
    by (auto split: if_splits sum.splits list.splits option.splits)
  then show ?thesis using preserved_refl preserved_alloc by auto
qed simp_all

lemma inline_field_preserved:
  "inline_field env defs field h = Inr (field', h') \<Longrightarrow> preserved h h'"
  by (auto simp: inline_field_def preserved_refl split: if_splits sum.splits
      dest: resolve_definition_ref_preserved)

lemma inline_fields_preserved:
  "inline_fields env defs fs h = (r, fs', h') \<Longrightarrow> preserved h h'"
proof (induction fs arbitrary: h r fs' h')
  case Nil
  then show ?case by (simp add: preserved_refl)
next
  case (Cons kf fs)
  obtain k field where kf: "kf = (k, field)" by (cases kf)
  show ?case
  proof (cases "inline_field env defs field h")
    case (Inl e)
    with Cons.prems kf show ?thesis by (simp add: preserved_refl)
  next
    case (Inr p)
    obtain field1 h1 where p: "p = (field1, h1)" by (cases p)
    obtain r2 fs2 h2 where rest: "inline_fields env defs fs h1 = (r2, fs2, h2)"
      by (cases "inline_fields env defs fs h1")
    from Cons.prems kf Inr p rest have "h' = h2" by simp
    moreover from Inr p have "preserved h h1" by (simp add: inline_field_preserved)
    moreover from rest have "preserved h1 h2" by (rule Cons.IH)
    ultimately show ?thesis using preserved_trans by blast
  qed
qed

lemma inline_models_preserved:
  "inline_models env defs ms h = (r, ms', h') \<Longrightarrow> preserved h h'"
proof (induction ms arbitrary: h r ms' h')
  case Nil
  then show ?case by (simp add: preserved_refl)
next
  case (Cons km ms)
  obtain k model where km: "km = (k, model)" by (cases km)
  obtain r1 fs1 h1 where fs: "inline_fields env defs (m_fields model) h = (r1, fs1, h1)"
    by (cases "inline_fields env defs (m_fields model) h")
  then have h1: "preserved h h1" by (rule inline_fields_preserved)
  show ?case
  proof (cases r1)
    case (Some e)
    with Cons.prems km fs have "h' = h1" by simp
    with h1 show ?thesis by simp
  next
    case None
    obtain r2 ms2 h2 where rest: "inline_models env defs ms h1 = (r2, ms2, h2)"
      by (cases "inline_models env defs ms h1")
    from Cons.prems km fs None rest have "h' = h2" by simp
    moreover from rest have "preserved h1 h2" by (rule Cons.IH)
    ultimately show ?thesis using h1 preserved_trans by blast
  qed
qed

lemma inline_definitions_preserved:
  assumes "inline_definitions_into_data_contract env (spec, h) = (r, (spec', h'))"
  shows "definitions spec' = definitions spec \<and> quality spec' = quality spec \<and> preserved h h'"
proof -
  obtain r1 ms h1 where ms: "inline_models env (definitions spec) (models spec) h = (r1, ms, h1)"
    by (cases "inline_models env (definitions spec) (models spec) h")
  with assms have "spec' = spec\<lparr>models := ms\<rparr>" and "h' = h1"
    by (simp_all add: inline_definitions_into_data_contract_def)
  with ms show ?thesis by (simp add: inline_models_preserved)
qed

subsection \<open>Every field of a finished run is inlined\<close>







subsection \<open>The small contract\<close>



lemma demo_remote_ref:
  "resolve_definition_ref demo_env (Val (VStr ''https://example.com/d1.yaml'')) defs h
     = Inr (alloc h demo_Definition)"
  by (simp add: demo_env_def to_yaml_def)

lemma demo_remote_run:
  assumes "f_dict field ''ref'' = Val (VStr ''https://example.com/d1.yaml'')"
  shows "inline_definitions_into_data_contract demo_env
           (\<lparr>models = [(''m1'', \<lparr>m_fields = [(''f1'', field)]\<rparr>)], definitions = Map.empty,
             quality = None\<rparr>, h)
         = (None,
            \<lparr>models = [(''m1'', \<lparr>m_fields = [(''f1'',
                 merge_attributes demo_Definition (Field_model_fields demo_env)
                   (setattr field ''ref_obj'' (Obj (next_addr h))))]\<rparr>)],
              definitions = Map.empty, quality = None\<rparr>,
            snd (alloc h demo_Definition))"
  using assms
  by (simp add: inline_definitions_into_data_contract_def inline_field_def demo_remote_ref
      alloc_def del: merge_attributes.simps resolve_definition_ref.simps)

section \<open>Properties\<close>

subsection \<open>Definition inlining\<close>

text \<open>
  C1. Inlining is meant to be idempotent because a field whose \<^verbatim>\<open>ref_obj\<close> is
  populated is skipped, as the comment above the guard says. The guard
  \<^verbatim>\<open>if not field.ref and not field.ref_obj: continue\<close> skips a field only when both
  are empty, so a populated field is resolved again. On the hand-built field with
  \<^verbatim>\<open>ref_obj\<close> set and no \<^verbatim>\<open>ref\<close> the call raises \<^verbatim>\<open>AttributeError\<close>
  (\<^verbatim>\<open>None.startswith\<close>) where a skip would return normally. On a field with a remote
  reference the first run succeeds and builds one \<^verbatim>\<open>Definition\<close>; the second run,
  on the result of the first, fetches the document again and builds a second one.
\<close>

theorem inlined_field_resolved_again:
  "inline_definitions_into_data_contract demo_env (stale_spec, demo_heap)
     = (Some (AttributeError ''startswith''), (stale_spec, demo_heap))
   \<and> fst (inline_definitions_into_data_contract demo_env (remote_spec, empty_heap)) = None
   \<and> next_addr (snd (snd (inline_definitions_into_data_contract demo_env
        (remote_spec, empty_heap)))) = 1
   \<and> next_addr (snd (snd (inline_definitions_into_data_contract demo_env
        (snd (inline_definitions_into_data_contract demo_env (remote_spec, empty_heap)))))) = 2"
proof -
  have stale: "inline_definitions_into_data_contract demo_env (stale_spec, demo_heap)
     = (Some (AttributeError ''startswith''), (stale_spec, demo_heap))"
    by (simp add: inline_definitions_into_data_contract_def stale_spec_def inline_field_def
        setattr_def blank_Field_def)
  have ref: "f_dict (setattr blank_Field ''ref'' (Val (VStr ''https://example.com/d1.yaml'')))
               ''ref'' = Val (VStr ''https://example.com/d1.yaml'')"
    by (simp add: setattr_def)
  have ref': "f_dict (merge_attributes demo_Definition (Field_model_fields demo_env)
                (setattr (setattr blank_Field ''ref'' (Val (VStr ''https://example.com/d1.yaml'')))
                   ''ref_obj'' (Obj a)))
               ''ref'' = Val (VStr ''https://example.com/d1.yaml'')" for a
    by (simp add: merge_attributes_dict setattr_def demo_Definition_def)
  show ?thesis
    unfolding remote_spec_def
    by (simp add: stale demo_remote_run [OF ref] demo_remote_run [OF ref'] alloc_def
        empty_heap_def del: merge_attributes.simps)
qed






subsection \<open>Resolving a reference\<close>

text \<open>
  C3. A reference string that starts with neither \<^verbatim>\<open>http://\<close> nor \<^verbatim>\<open>https://\<close> nor
  \<^verbatim>\<open>#/definitions/\<close> is not resolved: the call raises the
  \<^verbatim>\<open>DataContractException\<close> of type \<^verbatim>\<open>lint\<close> (the spec's UnresolvableReference)
  whose reason is \<^verbatim>\<open>Cannot resolve reference\<close> followed by that very string. Nothing
  is returned, and no object is allocated.
\<close>

theorem resolve_definition_ref_unresolvable:
  assumes "\<not> prefix ''http://'' ref" and "\<not> prefix ''https://'' ref"
    and "\<not> prefix ''#/definitions/'' ref"
  shows "resolve_definition_ref env (Val (VStr ref)) defs h =
           Inl (DataContractException ''lint'' ''failed''
                  ''Check that data contract YAML is valid''
                  (''Cannot resolve reference '' @ ref) ''datacontract'')"
  using assms by simp

theorem resolve_definition_ref_unresolvable_witness:
  "resolve_definition_ref demo_env (Val (VStr ''not-a-valid-ref'')) Map.empty empty_heap =
     Inl (DataContractException ''lint'' ''failed''
            ''Check that data contract YAML is valid''
            ''Cannot resolve reference not-a-valid-ref'' ''datacontract'')"
  using resolve_definition_ref_unresolvable [of "''not-a-valid-ref''" demo_env Map.empty empty_heap]
  by simp

subsection \<open>Quality files\<close>

text \<open>
  C4. \<^verbatim>\<open>get_quality_ref_file\<close> on a payload. When the payload is a mapping with a
  \<^verbatim>\<open>$ref\<close> key and \<^verbatim>\<open>os.path.exists\<close> says the referenced path is not there, the
  call raises the \<^verbatim>\<open>DataContractException\<close> of type \<^verbatim>\<open>export\<close> (the spec's
  MissingReferenceFile) whose reason names the path. When the path exists, the result
  is the text \<^verbatim>\<open>open(ref).read()\<close> returns. A payload that is not a mapping, or is a
  mapping without a \<^verbatim>\<open>$ref\<close> key, is returned as it is.
\<close>

theorem get_quality_ref_file_cases:
  "(map_of kvs (VStr ''$ref'') = Some ref \<and> os_path_exists env ref = Inr False \<longrightarrow>
      get_quality_ref_file env (VDict kvs) =
        Inl (DataContractException ''export'' ''failed''
               ''Check that data contract quality is valid''
               (''Cannot resolve reference '' @ format env ref) ''datacontract''))
   \<and> (map_of kvs (VStr ''$ref'') = Some ref \<and> os_path_exists env ref = Inr True
        \<and> open_read env ref = Inr content \<longrightarrow>
      get_quality_ref_file env (VDict kvs) = Inr (VStr content))
   \<and> ((\<forall>items. payload = VDict items \<longrightarrow> map_of items (VStr ''$ref'') = None) \<longrightarrow>
      get_quality_ref_file env payload = Inr payload)"
  by (cases payload) (simp_all add: get_quality_ref_file_def)

theorem get_quality_ref_file_cases_witness:
  "get_quality_ref_file demo_env (VDict [(VStr ''$ref'', VStr ''missing.txt'')]) =
     Inl (DataContractException ''export'' ''failed''
            ''Check that data contract quality is valid''
            ''Cannot resolve reference missing.txt'' ''datacontract'')
   \<and> get_quality_ref_file demo_env (VDict [(VStr ''$ref'', VStr ''checks.yaml'')]) = Inr (VStr ''X'')
   \<and> get_quality_ref_file demo_env (VDict [(VStr ''checks'', VList [])])
       = Inr (VDict [(VStr ''checks'', VList [])])
   \<and> get_quality_ref_file demo_env (VStr ''checks for orders'') = Inr (VStr ''checks for orders'')"
proof -
  have "get_quality_ref_file demo_env (VDict [(VStr ''$ref'', VStr ''missing.txt'')]) =
     Inl (DataContractException ''export'' ''failed''
            ''Check that data contract quality is valid''
            ''Cannot resolve reference missing.txt'' ''datacontract'')"
    using get_quality_ref_file_cases
      [of "[(VStr ''$ref'', VStr ''missing.txt'')]" "VStr ''missing.txt''" demo_env]
    by (simp add: demo_env_def)
  moreover have "get_quality_ref_file demo_env (VDict [(VStr ''$ref'', VStr ''checks.yaml'')])
       = Inr (VStr ''X'')"
    using get_quality_ref_file_cases
      [of "[(VStr ''$ref'', VStr ''checks.yaml'')]" "VStr ''checks.yaml''" demo_env "''X''"]
    by (simp add: demo_env_def)
  moreover have "get_quality_ref_file demo_env (VDict [(VStr ''checks'', VList [])])
       = Inr (VDict [(VStr ''checks'', VList [])])"
    using get_quality_ref_file_cases
      [of _ _ demo_env _ "VDict [(VStr ''checks'', VList [])]"]
    by simp
  moreover have "get_quality_ref_file demo_env (VStr ''checks for orders'')
       = Inr (VStr ''checks for orders'')"
    using get_quality_ref_file_cases [of _ _ demo_env _ "VStr ''checks for orders''"]
    by simp
  ultimately show ?thesis by simp
qed

subsection \<open>Local anchors\<close>

text \<open>
  The name is cut out of the reference with \<^verbatim>\<open>ref.split("#/definitions/")[1]\<close>, the
  piece between the first and the second occurrence of the separator. For the
  definition named \<^verbatim>\<open>a#/definitions/b\<close>, which is in the mapping, the reference
  \<^verbatim>\<open>#/definitions/a#/definitions/b\<close> looks up \<^verbatim>\<open>a\<close> and raises \<^verbatim>\<open>KeyError\<close>.
\<close>

theorem local_anchor_counterexample:
  "[''a#/definitions/b'' \<mapsto> (0::nat)] ''a#/definitions/b'' = Some 0
   \<and> resolve_definition_ref demo_env (Val (VStr ''#/definitions/a#/definitions/b''))
       [''a#/definitions/b'' \<mapsto> 0] demo_heap = Inl (KeyError ''a'')"
  by (simp add: str_split_def)

text \<open>
  C5. For a reference \<^verbatim>\<open>#/definitions/<name>\<close> whose name holds no further
  \<^verbatim>\<open>#/definitions/\<close> and is in the mapping, resolution returns the very object the
  mapping holds and leaves the store as it is: nothing is copied, nothing is allocated.
  A field with this reference is inlined against that object, and its \<^verbatim>\<open>ref_obj\<close> is
  that object. No run of the inlining changes the \<^verbatim>\<open>definitions\<close> mapping or an
  object that was in the store before it; only fields change.
\<close>

theorem local_anchor_same_object:
  assumes "\<not> sublist ''#/definitions/'' name" and "defs name = Some a"
  shows "resolve_definition_ref env (Val (VStr (''#/definitions/'' @ name))) defs h = Inr (a, h)
    \<and> (\<forall>field. f_dict field ''ref'' = Val (VStr (''#/definitions/'' @ name)) \<longrightarrow>
          (\<exists>field'. inline_field env defs field h = Inr (field', h)
             \<and> f_dict field' ''ref_obj'' = Obj a))
    \<and> (\<forall>spec r spec' h'.
          inline_definitions_into_data_contract env (spec, h) = (r, (spec', h')) \<longrightarrow>
          definitions spec' = definitions spec \<and> preserved h h')"
proof -
  have res: "resolve_definition_ref env (Val (VStr (''#/definitions/'' @ name))) defs h
               = Inr (a, h)"
    using assms str_split_local_anchor [of name] by simp
  moreover have "\<forall>field. f_dict field ''ref'' = Val (VStr (''#/definitions/'' @ name)) \<longrightarrow>
          (\<exists>field'. inline_field env defs field h = Inr (field', h)
             \<and> f_dict field' ''ref_obj'' = Obj a)"
    using res by (simp add: inline_field_def merge_attributes_dict setattr_def)
  moreover have "\<forall>spec r spec' h'.
          inline_definitions_into_data_contract env (spec, h) = (r, (spec', h')) \<longrightarrow>
          definitions spec' = definitions spec \<and> preserved h h'"
    using inline_definitions_preserved by blast
  ultimately show ?thesis by blast
qed

theorem local_anchor_same_object_witness:
  "resolve_definition_ref demo_env (Val (VStr ''#/definitions/d1'')) [''d1'' \<mapsto> 0] demo_heap
     = Inr (0, demo_heap)
   \<and> (\<exists>field'. inline_field demo_env [''d1'' \<mapsto> 0] demo_field demo_heap = Inr (field', demo_heap)
         \<and> f_dict field' ''ref_obj'' = Obj 0)
   \<and> definitions (fst (snd (inline_definitions_into_data_contract demo_env (demo_spec, demo_heap))))
       = definitions demo_spec
   \<and> objs (snd (snd (inline_definitions_into_data_contract demo_env (demo_spec, demo_heap)))) 0
       = demo_Definition"
proof -
  have n: "\<not> sublist ''#/definitions/'' ''d1''" by code_simp
  have ref: "f_dict demo_field ''ref'' = Val (VStr ''#/definitions/d1'')"
    by (simp add: demo_field_def setattr_def)
  have obj: "objs demo_heap 0 = demo_Definition" and nxt: "next_addr demo_heap = 1"
    by (simp_all add: demo_heap_def alloc_def empty_heap_def)
  obtain r spec' h' where
    run: "inline_definitions_into_data_contract demo_env (demo_spec, demo_heap) = (r, (spec', h'))"
    by (metis prod.exhaust)
  from local_anchor_same_object [OF n, of "[''d1'' \<mapsto> 0]" 0 demo_env demo_heap] ref run
  have "resolve_definition_ref demo_env (Val (VStr ''#/definitions/d1'')) [''d1'' \<mapsto> 0] demo_heap
          = Inr (0, demo_heap)"
    and "\<exists>field'. inline_field demo_env [''d1'' \<mapsto> 0] demo_field demo_heap = Inr (field', demo_heap)
         \<and> f_dict field' ''ref_obj'' = Obj 0"
    and "definitions spec' = definitions demo_spec" and "preserved demo_heap h'"
    by simp_all
  then show ?thesis using run obj nxt by (simp add: preserved_def)
qed

subsection \<open>The generic entry point\<close>

text \<open>
  C6. With no location, no string and no pre-built specification, the generic entry
  point raises the \<^verbatim>\<open>DataContractException\<close> with the reason
  \<^verbatim>\<open>Data contract needs to be provided\<close> (the spec's MissingInput), whatever the
  options; nothing is returned.
\<close>

theorem resolve_data_contract_missing_input:
  "resolve_data_contract env None None None schema_location inline_definitions =
     Inl (DataContractException ''lint'' ''failed''
            ''Check that data contract YAML is valid''
            ''Data contract needs to be provided'' ''datacontract'')"
  by (simp add: resolve_data_contract_def)

text \<open>
  C7. A pre-built specification given as the input is returned as it is, with its store
  untouched, for every value of \<^verbatim>\<open>schema_location\<close> and \<^verbatim>\<open>inline_definitions\<close> and
  whatever the collaborators would answer: nothing is parsed, validated, inlined or
  resolved.
\<close>

theorem resolve_data_contract_prebuilt:
  "resolve_data_contract env None None (Some data_contract) schema_location inline_definitions
     = Inr data_contract"
  by (simp add: resolve_data_contract_def)

subsection \<open>The default of include_quality\<close>

text \<open>
  C8. \<^verbatim>\<open>include_quality\<close> left out means \<^verbatim>\<open>True\<close> for
  \<^verbatim>\<open>resolve_data_contract_from_location\<close> and \<^verbatim>\<open>False\<close> for
  \<^verbatim>\<open>resolve_data_contract_from_str\<close>. So for a contract text that parses, validates
  and builds, whose quality block is a \<^verbatim>\<open>$ref\<close> to an existing file, the call from
  the location with default options returns the specification with the payload
  replaced by the file's text, and the call from the string with default options
  returns it with the payload as built.
\<close>

theorem include_quality_defaults:
  assumes "(if prefix ''http://'' location \<or> prefix ''https://'' location
            then fetch_resource env location else read_file env location) = Inr text"
    and "to_yaml env text = Inr y"
    and "validate env y None = Inr ()"
    and "new_DataContractSpecification env y = Inr (spec, h)"
    and "quality spec = Some q"
    and "q_specification q = VDict items"
    and "q_type q \<noteq> VStr ''great-expectations''"
    and "map_of items (VStr ''$ref'') = Some ref"
    and "os_path_exists env ref = Inr True"
    and "open_read env ref = Inr content"
  shows "resolve_data_contract_from_location env location None None None
           = resolve_data_contract_from_location env location None None (Some True)
    \<and> resolve_data_contract_from_str env text None None None
           = resolve_data_contract_from_str env text None None (Some False)
    \<and> resolve_data_contract_from_location env location None None None
           = Inr (spec\<lparr>quality := Some (q\<lparr>q_specification := VStr content\<rparr>)\<rparr>, h)
    \<and> resolve_data_contract_from_str env text None None None = Inr (spec, h)"
proof -
  have q: "resolve_quality_ref env q = (None, q\<lparr>q_specification := VStr content\<rparr>)"
    using assms(6-10) by (simp add: resolve_quality_ref_def get_quality_ref_file_def)
  have "resolve_data_contract_from_str env text None (Some False) (Some True)
          = Inr (spec\<lparr>quality := Some (q\<lparr>q_specification := VStr content\<rparr>)\<rparr>, h)"
    using assms(2-5) q by (simp add: resolve_data_contract_from_str_def given_def)
  then have loc: "resolve_data_contract_from_location env location None None None
          = Inr (spec\<lparr>quality := Some (q\<lparr>q_specification := VStr content\<rparr>)\<rparr>, h)"
    using assms(1) by (simp add: resolve_data_contract_from_location_def given_def)
  have str: "resolve_data_contract_from_str env text None None None = Inr (spec, h)"
    using assms(2-5) by (simp add: resolve_data_contract_from_str_def given_def)
  have "resolve_data_contract_from_location env location None None None
           = resolve_data_contract_from_location env location None None (Some True)"
    unfolding resolve_data_contract_from_location_def given_def option.case by (rule refl)
  moreover have "resolve_data_contract_from_str env text None None None
           = resolve_data_contract_from_str env text None None (Some False)"
    unfolding resolve_data_contract_from_str_def given_def option.case by (rule refl)
  ultimately show ?thesis using loc str by simp
qed

theorem include_quality_defaults_witness:
  "resolve_data_contract_from_location demo_env ''datacontract.yaml'' None None None
     = Inr (demo_spec\<lparr>quality := Some (demo_quality\<lparr>q_specification := VStr ''X''\<rparr>)\<rparr>, demo_heap)
   \<and> resolve_data_contract_from_str demo_env ''contract'' None None None
     = Inr (demo_spec, demo_heap)"
proof -
  have "(if prefix ''http://'' ''datacontract.yaml'' \<or> prefix ''https://'' ''datacontract.yaml''
         then fetch_resource demo_env ''datacontract.yaml''
         else read_file demo_env ''datacontract.yaml'') = Inr ''contract''"
    by (simp add: demo_env_def)
  moreover have "to_yaml demo_env ''contract'' = Inr (VDict [(VStr ''models'', VDict [])])"
    by (simp add: to_yaml_def demo_env_def)
  moreover have "validate demo_env (VDict [(VStr ''models'', VDict [])]) None = Inr ()"
    by (simp add: validate_def demo_env_def)
  moreover have "new_DataContractSpecification demo_env (VDict [(VStr ''models'', VDict [])])
                   = Inr (demo_spec, demo_heap)"
    by (simp add: demo_env_def)
  moreover have "quality demo_spec = Some demo_quality"
    by (simp add: demo_spec_def)
  moreover have "q_specification demo_quality = VDict [(VStr ''$ref'', VStr ''checks.yaml'')]"
    and "q_type demo_quality \<noteq> VStr ''great-expectations''"
    by (simp_all add: demo_quality_def)
  moreover have "map_of [(VStr ''$ref'', VStr ''checks.yaml'')] (VStr ''$ref'')
                   = Some (VStr ''checks.yaml'')"
    by simp
  moreover have "os_path_exists demo_env (VStr ''checks.yaml'') = Inr True"
    and "open_read demo_env (VStr ''checks.yaml'') = Inr ''X''"
    by (simp_all add: demo_env_def)
  ultimately show ?thesis
    using include_quality_defaults [of "''datacontract.yaml''" demo_env "''contract''"
        "VDict [(VStr ''models'', VDict [])]" demo_spec demo_heap demo_quality
        "[(VStr ''$ref'', VStr ''checks.yaml'')]" "VStr ''checks.yaml''" "''X''"]
    by blast
qed

subsection \<open>A local anchor that is not defined\<close>

text \<open>
  The name \<^verbatim>\<open>a#/definitions/b\<close> is not in the mapping, and the reference
  \<^verbatim>\<open>#/definitions/a#/definitions/b\<close> resolves all the same: the key looked up is
  \<^verbatim>\<open>a\<close>, which is defined.
\<close>

theorem missing_definition_counterexample:
  "[''a'' \<mapsto> (0::nat)] ''a#/definitions/b'' = None
   \<and> resolve_definition_ref demo_env (Val (VStr ''#/definitions/a#/definitions/b''))
       [''a'' \<mapsto> 0] demo_heap = Inr (0, demo_heap)"
  by (simp add: str_split_def)

text \<open>
  C9. For a reference \<^verbatim>\<open>#/definitions/<name>\<close> whose name holds no further
  \<^verbatim>\<open>#/definitions/\<close> and is not in the mapping, resolution raises Python's bare
  \<^verbatim>\<open>KeyError\<close> for that name, not the \<^verbatim>\<open>DataContractException\<close> of the other bad
  references.
\<close>

theorem missing_definition_KeyError:
  assumes "\<not> sublist ''#/definitions/'' name" and "defs name = None"
  shows "resolve_definition_ref env (Val (VStr (''#/definitions/'' @ name))) defs h
           = Inl (KeyError name)"
  using assms str_split_local_anchor [of name] by simp

theorem missing_definition_KeyError_witness:
  "resolve_definition_ref demo_env (Val (VStr ''#/definitions/d2'')) [''d1'' \<mapsto> 0] demo_heap
     = Inl (KeyError ''d2'')"
proof -
  have n: "\<not> sublist ''#/definitions/'' ''d2''" by code_simp
  show ?thesis
    using missing_definition_KeyError [OF n, of "[''d1'' \<mapsto> 0]" demo_env demo_heap] by simp
qed

subsection \<open>Several inputs at once\<close>

text \<open>
  C10. The generic entry point tests its inputs in the order location, string, pre-built
  specification, and takes the first that is given. A call with a location is the call
  \<^verbatim>\<open>resolve_data_contract_from_location\<close> makes of it, and equals the call with the
  location alone; a call with a string and no location is the call
  \<^verbatim>\<open>resolve_data_contract_from_str\<close> makes of it, and equals the call with the
  string alone. The inputs after the first given one change nothing, and giving them
  raises nothing.
\<close>

theorem resolve_data_contract_precedence:
  "resolve_data_contract env (Some location) data_contract_str data_contract
       schema_location inline_definitions
     = resolve_data_contract_from_location env location schema_location
         (Some (given False inline_definitions)) None
   \<and> resolve_data_contract env None (Some s) data_contract schema_location inline_definitions
     = resolve_data_contract_from_str env s schema_location
         (Some (given False inline_definitions)) None
   \<and> resolve_data_contract env (Some location) data_contract_str data_contract
       schema_location inline_definitions
     = resolve_data_contract env (Some location) None None schema_location inline_definitions
   \<and> resolve_data_contract env None (Some s) data_contract schema_location inline_definitions
     = resolve_data_contract env None (Some s) None schema_location inline_definitions"
  by (simp add: resolve_data_contract_def)

end
